theory Spec2Isabelle
  imports Main
begin

section \<open>Python values and errors\<close>

text \<open>
  The functions of \<^verbatim>\<open>cctkpkg/sequence_operations.py\<close> check the run-time type of
  their arguments, so an argument is a value of \<open>pyval\<close> and \<open>type_of\<close> is Python's
  \<^verbatim>\<open>type(x)\<close>. A \<^verbatim>\<open>str\<close> is a \<open>string\<close>; the elements of a list or tuple
  are \<^verbatim>\<open>str\<close> tokens (the toolkit aligns lists of spacer identifiers).

  \<open>pynum\<close> holds the numbers the embedding covers: the integers (a Python
  \<^verbatim>\<open>int\<close>, or a float holding an integer exactly, as the cells of the
  \<^verbatim>\<open>numpy\<close> grid do) and the float \<^verbatim>\<open>nan\<close>. Fractional and infinite floats,
  and integers beyond the exact range of a float (which the grid would round, or
  refuse with \<^verbatim>\<open>OverflowError\<close>), are outside the embedding.
\<close>

datatype error = TypeError | IndexError | KeyError

datatype pynum = Val int | NaN

datatype pyval =
    PStr string
  | PList "string list"
  | PTuple "string list"
  | PInt int
  | PFloat pynum
  | PBool bool
  | PNone

datatype pytype = T_str | T_list | T_tuple | T_int | T_float | T_bool | T_NoneType

fun type_of :: "pyval \<Rightarrow> pytype" where
  "type_of (PStr _) = T_str"
| "type_of (PList _) = T_list"
| "type_of (PTuple _) = T_tuple"
| "type_of (PInt _) = T_int"
| "type_of (PFloat _) = T_float"
| "type_of (PBool _) = T_bool"
| "type_of PNone = T_NoneType"

text \<open>A result is an error or a value; \<open>and_then\<close> runs the next statement unless
  the previous one raised. \<open>get_item\<close> is \<^verbatim>\<open>xs[i]\<close> for \<open>i \<ge> 0\<close>.\<close>

definition and_then :: "error + 'a \<Rightarrow> ('a \<Rightarrow> error + 'b) \<Rightarrow> error + 'b" where
  "and_then r f = (case r of Inl e \<Rightarrow> Inl e | Inr v \<Rightarrow> f v)"

definition get_item :: "'a list \<Rightarrow> nat \<Rightarrow> error + 'a" where
  "get_item xs i = (if i < length xs then Inr (xs ! i) else Inl IndexError)"


section \<open>rev_comp\<close>

definition rev_comp_lookup :: "char \<rightharpoonup> char" where
  "rev_comp_lookup = map_of
     [(CHR ''A'', CHR ''T''), (CHR ''T'', CHR ''A''),
      (CHR ''C'', CHR ''G''), (CHR ''G'', CHR ''C''),
      (CHR ''a'', CHR ''t''), (CHR ''t'', CHR ''a''),
      (CHR ''c'', CHR ''g''), (CHR ''g'', CHR ''c'')]"

text \<open>The loop \<^verbatim>\<open>for i in reversed(string)\<close>: the first argument is what is left
  of the reversed string, \<open>rev_str\<close> the string built so far. A key missing from the
  dictionary would raise \<open>KeyError\<close>.\<close>

fun rev_comp_loop :: "string \<Rightarrow> string \<Rightarrow> error + string" where
  "rev_comp_loop [] rev_str = Inr rev_str"
| "rev_comp_loop (i # rest) rev_str =
     (if i \<in> set ''ATCGatcg'' then
        (case rev_comp_lookup i of
           None \<Rightarrow> Inl KeyError
         | Some c \<Rightarrow> rev_comp_loop rest (rev_str @ [c]))
      else rev_comp_loop rest (rev_str @ [i]))"

definition rev_comp :: "pyval \<Rightarrow> error + pyval" where
  "rev_comp string =
     (if type_of string \<noteq> T_str then Inl TypeError
      else case string of
        PStr s \<Rightarrow> map_sum id PStr (rev_comp_loop (rev s) [])
      | _ \<Rightarrow> Inl TypeError)"

section \<open>hamming\<close>

text \<open>One of the three counting loops of \<open>hamming\<close> (the source writes the same loop
  three times): \<^verbatim>\<open>for i in range(max(len(string1), len(string2)))\<close>. Both reads
  stand under the test \<^verbatim>\<open>i < len(string1) and i < len(string2)\<close>.\<close>

fun hamming_loop :: "string \<Rightarrow> string \<Rightarrow> nat list \<Rightarrow> nat \<Rightarrow> nat" where
  "hamming_loop string1 string2 [] dist = dist"
| "hamming_loop string1 string2 (i # rest) dist =
     (if i < length string1 \<and> i < length string2 then
        (if string1 ! i \<noteq> string2 ! i
         then hamming_loop string1 string2 rest (dist + 1)
         else hamming_loop string1 string2 rest dist)
      else hamming_loop string1 string2 rest (dist + 1))"

definition hamming :: "pyval \<Rightarrow> pyval \<Rightarrow> error + (nat \<times> nat \<times> nat)" where
  "hamming string1 string2 =
     (if type_of string1 \<noteq> T_str then Inl TypeError
      else if type_of string2 \<noteq> T_str then Inl TypeError
      else case (string1, string2) of
        (PStr s1, PStr s2) \<Rightarrow>
          (let string1plus1 = drop 1 s1;
               string2plus1 = drop 1 s2;
               dist = hamming_loop s1 s2 [0..<max (length s1) (length s2)] 0;
               distplus1 = hamming_loop string1plus1 s2
                             [0..<max (length string1plus1) (length s2)] 0;
               distminus1 = hamming_loop s1 string2plus1
                              [0..<max (length s1) (length string2plus1)] 0
           in Inr (dist, distplus1, distminus1))
      | _ \<Rightarrow> Inl TypeError)"

section \<open>needle\<close>








text \<open>The grid \<^verbatim>\<open>np.zeros((len(seq2)+1, len(seq1)+1))\<close> is a list of rows; reading
  or writing a cell outside it raises \<open>IndexError\<close>.\<close>

type_synonym grid = "pynum list list"















section \<open>Notions of the specification\<close>

text \<open>The complement table as the specification words it: the four pairs in both
  cases, every other symbol unchanged.\<close>

definition complement :: "char \<Rightarrow> char" where
  "complement c =
     (if c = CHR ''A'' then CHR ''T'' else if c = CHR ''T'' then CHR ''A''
      else if c = CHR ''C'' then CHR ''G'' else if c = CHR ''G'' then CHR ''C''
      else if c = CHR ''a'' then CHR ''t'' else if c = CHR ''t'' then CHR ''a''
      else if c = CHR ''c'' then CHR ''g'' else if c = CHR ''g'' then CHR ''c''
      else c)"

text \<open>The mismatch count of the specification: the positions below the shorter
  length where the strings differ, plus the difference of the lengths.\<close>

definition mismatches :: "string \<Rightarrow> string \<Rightarrow> nat" where
  "mismatches s1 s2 =
     length (filter (\<lambda>i. s1 ! i \<noteq> s2 ! i) [0..<min (length s1) (length s2)])
     + (max (length s1) (length s2) - min (length s1) (length s2))"






text \<open>A grid of the given shape, and one whose cells in the region \<open>D\<close> hold the
  values \<open>cv\<close>: the invariants of the loops that fill the grid.\<close>

definition shape :: "grid \<Rightarrow> nat \<Rightarrow> nat \<Rightarrow> bool" where
  "shape g rows cols = (length g = rows \<and> (\<forall>row \<in> set g. length row = cols))"








section \<open>rev\_comp: the complement table, reversal, involution\<close>

lemma rev_comp_lookup_in:
  "i \<in> set ''ATCGatcg'' \<Longrightarrow> rev_comp_lookup i = Some (complement i)"
  by (auto simp: rev_comp_lookup_def complement_def)

lemma complement_outside: "i \<notin> set ''ATCGatcg'' \<Longrightarrow> complement i = i"
  by (auto simp: complement_def)

lemma rev_comp_loop_map:
  "rev_comp_loop xs rev_str = Inr (rev_str @ map complement xs)"
proof (induction xs arbitrary: rev_str)
  case Nil
  show ?case by simp
next
  case (Cons i rest)
  show ?case
  proof (cases "i \<in> set ''ATCGatcg''")
    case True
    then show ?thesis
      using Cons.IH [of "rev_str @ [complement i]"] rev_comp_lookup_in [OF True]
      by (simp del: set_simps)
  next
    case False
    then show ?thesis
      using Cons.IH [of "rev_str @ [i]"] complement_outside [OF False]
      by (simp del: set_simps)
  qed
qed

lemma complement_involution: "complement (complement c) = c"
  by (simp add: complement_def)

lemma rev_comp_str: "rev_comp (PStr s) = Inr (PStr (rev (map complement s)))"
  by (simp add: rev_comp_def rev_comp_loop_map rev_map)

text \<open>
  C8, as the code has it. For every \<^verbatim>\<open>str\<close> input \<open>rev_comp\<close> returns the
  reversed string with every symbol sent through the complement table
  (A to T, T to A, C to G, G to C, and the same in lower case); a symbol outside
  \<^verbatim>\<open>ATCGatcg\<close> is left unchanged. \<^verbatim>\<open>rev_comp("AaTtCcGg")\<close> is \<^verbatim>\<open>"cCgGaAtT"\<close>,
  \<^verbatim>\<open>rev_comp("ACGT")\<close> is \<^verbatim>\<open>"ACGT"\<close> and \<^verbatim>\<open>rev_comp("AATT")\<close> is \<^verbatim>\<open>"AATT"\<close>.
\<close>

theorem rev_comp_complement_reverse:
  "rev_comp (PStr s) = Inr (PStr (rev (map complement s)))
   \<and> complement (CHR ''A'') = CHR ''T'' \<and> complement (CHR ''T'') = CHR ''A''
   \<and> complement (CHR ''C'') = CHR ''G'' \<and> complement (CHR ''G'') = CHR ''C''
   \<and> complement (CHR ''a'') = CHR ''t'' \<and> complement (CHR ''t'') = CHR ''a''
   \<and> complement (CHR ''c'') = CHR ''g'' \<and> complement (CHR ''g'') = CHR ''c''
   \<and> (c \<notin> set ''ATCGatcg'' \<longrightarrow> complement c = c)
   \<and> rev_comp (PStr ''AaTtCcGg'') = Inr (PStr ''cCgGaAtT'')
   \<and> rev_comp (PStr ''ACGT'') = Inr (PStr ''ACGT'')
   \<and> rev_comp (PStr ''AATT'') = Inr (PStr ''AATT'')"
  by (simp add: rev_comp_str) (simp add: complement_def)

theorem rev_comp_complement_reverse_witness:
  "CHR ''N'' \<notin> set ''ATCGatcg'' \<and> complement (CHR ''N'') = CHR ''N''
   \<and> rev_comp (PStr ''AaNTt'') = Inr (PStr ''aANtT'')"
  using rev_comp_complement_reverse [of "''AaNTt''" "CHR ''N''"]
  by (simp add: complement_def)

text \<open>
  C8, as the specification states it, fails on its first example:
  \<^verbatim>\<open>rev_comp("AaTtCcGg")\<close> is not \<^verbatim>\<open>"ccGgAAtT"\<close>.
\<close>

theorem rev_comp_spec_example_fails:
  "rev_comp (PStr ''AaTtCcGg'') \<noteq> Inr (PStr ''ccGgAAtT'')"
  by (simp add: rev_comp_str complement_def)

text \<open>
  C10. For every string \<open>s\<close>, \<^verbatim>\<open>rev_comp(rev_comp(s)) == s\<close>: the first call
  returns a string, and the call on that string returns \<open>s\<close>.
\<close>

theorem rev_comp_involution:
  "\<exists>t. rev_comp (PStr s) = Inr (PStr t) \<and> rev_comp (PStr t) = Inr (PStr s)"
  by (simp add: rev_comp_str rev_map complement_involution comp_def)

theorem rev_comp_involution_witness:
  "rev_comp (PStr ''ACCGTn'') = Inr (PStr ''nACGGT'')
   \<and> rev_comp (PStr ''nACGGT'') = Inr (PStr ''ACCGTn'')"
  using rev_comp_involution [of "''ACCGTn''"]
  by (simp add: rev_comp_str complement_def)

section \<open>hamming: the three counts\<close>

lemma hamming_loop_count:
  "hamming_loop s1 s2 is dist =
     dist + length (filter (\<lambda>i. \<not> (i < length s1 \<and> i < length s2) \<or> s1 ! i \<noteq> s2 ! i) is)"
  by (induction "is" arbitrary: dist) auto

lemma hamming_loop_range:
  "hamming_loop s1 s2 [0..<max (length s1) (length s2)] 0 = mismatches s1 s2"
proof -
  let ?m = "min (length s1) (length s2)" and ?M = "max (length s1) (length s2)"
  let ?P = "\<lambda>i. \<not> (i < length s1 \<and> i < length s2) \<or> s1 ! i \<noteq> s2 ! i"
  have "?m \<le> ?M" by simp
  then have split: "[0..<?M] = [0..<?m] @ [?m..<?M]"
    by (metis le_add_diff_inverse upt_add_eq_append zero_le)
  have lo: "filter ?P [0..<?m] = filter (\<lambda>i. s1 ! i \<noteq> s2 ! i) [0..<?m]"
    by (rule filter_cong) auto
  have hi: "filter ?P [?m..<?M] = [?m..<?M]"
    by (rule filter_True) auto
  show ?thesis
    unfolding hamming_loop_count mismatches_def split filter_append lo hi by simp
qed

text \<open>
  C9. For all strings \<open>s1\<close>, \<open>s2\<close>, \<open>hamming\<close> returns the triple of the mismatch
  count of \<open>s1\<close> and \<open>s2\<close> (the differing positions below the shorter length plus the
  difference of the lengths), the same count of \<^verbatim>\<open>s1[1:]\<close> and \<open>s2\<close>, and the same
  count of \<open>s1\<close> and \<^verbatim>\<open>s2[1:]\<close>; the first component of \<^verbatim>\<open>hamming(s, s)\<close> is 0.
\<close>

theorem hamming_counts:
  "hamming (PStr s1) (PStr s2) =
     Inr (mismatches s1 s2, mismatches (drop 1 s1) s2, mismatches s1 (drop 1 s2))
   \<and> (\<exists>p q. hamming (PStr s) (PStr s) = Inr (0, p, q))"
proof -
  have h: "\<And>a b. hamming (PStr a) (PStr b) =
     Inr (mismatches a b, mismatches (drop 1 a) b, mismatches a (drop 1 b))"
    unfolding hamming_def Let_def
    by (simp only: type_of.simps hamming_loop_range pyval.case prod.case if_False simp_thms)
  have z: "mismatches s s = 0" by (simp add: mismatches_def)
  show ?thesis using h z by simp
qed

theorem hamming_counts_witness:
  "hamming (PStr ''ACGT'') (PStr ''CGTAA'') = Inr (5, 2, 4)
   \<and> hamming (PStr ''ACGT'') (PStr ''ACGT'') = Inr (0, 4, 4)"
  using hamming_counts [of "''ACGT''" "''CGTAA''" "''ACGT''"]
        hamming_counts [of "''ACGT''" "''ACGT''" "''ACGT''"]
  by (simp add: mismatches_def upt_rec [of _ "numeral _"] upt_rec [of _ "Suc _"])

section \<open>needle: the grid holds the score matrix\<close>

lemma and_then_Inr [simp]: "and_then (Inr v) f = f v"
  by (simp add: and_then_def)

lemma and_then_Inl [simp]: "and_then (Inl e) f = Inl e"
  by (simp add: and_then_def)

lemma get_item_in [simp]: "i < length xs \<Longrightarrow> get_item xs i = Inr (xs ! i)"
  by (simp add: get_item_def)

lemma shape_row: "shape g rows cols \<Longrightarrow> r < rows \<Longrightarrow> length (g ! r) = cols"
  by (simp add: shape_def)















section \<open>needle: the read-back on integer scores\<close>






section \<open>Alignments and their scores\<close>






















section \<open>needle: no error on any scores, no return on a stuck state\<close>







section \<open>needle: what a call with valid arguments returns\<close>










section \<open>needle: what a call returns on any valid scores\<close>
















section \<open>needle: the two sequences swapped\<close>






section \<open>needle: the claims\<close>




















end
